theory Spec2Isabelle
  imports Main "HOL-Library.Word"
begin

section \<open>The login page of kiali-ui (src/pages/Login/LoginPage.tsx)\<close>

subsection \<open>Strings and truthiness\<close>

text \<open>
  A JavaScript string is a sequence of UTF-16 code units. The literals of the page are
  Chinese text of the Basic Multilingual Plane, one code unit per character; they are
  written here by their code units. The page tests strings only with \<open>!!s\<close>, which is
  false exactly for the empty string (and for \<open>undefined\<close>).
\<close>

type_synonym jsstring = "16 word list"

definition truthy :: "jsstring \<Rightarrow> bool" where
  "truthy s = (s \<noteq> [])"

fun truthyOpt :: "jsstring option \<Rightarrow> bool" where
  "truthyOpt None = False"
| "truthyOpt (Some s) = truthy s"

text \<open>Line 86: the fixed prefix, "invalid login credentials." (8 code units).\<close>

definition invalidCredentials :: jsstring where
  "invalidCredentials = [0x65E0, 0x6548, 0x7684, 0x767B, 0x5F55, 0x51ED, 0x8BC1, 0x3002]"

text \<open>Line 89: "user name and password are required." (11 code units).\<close>

definition bothRequired :: jsstring where
  "bothRequired =
     [0x7528, 0x6237, 0x540D, 0x548C, 0x5BC6, 0x7801, 0x4E3A, 0x5FC5, 0x586B, 0x9879, 0x3002]"

text \<open>Line 91: "the password is required." (7 code units).\<close>

definition passwordRequired :: jsstring where
  "passwordRequired = [0x5BC6, 0x7801, 0x662F, 0x5FC5, 0x586B, 0x9879, 0x3002]"

text \<open>Line 92: "the user name is required." (8 code units).\<close>

definition usernameRequired :: jsstring where
  "usernameRequired = [0x7528, 0x6237, 0x540D, 0x662F, 0x5FC5, 0x586B, 0x9879, 0x3002]"

text \<open>Line 132: the warning that the secret of Kiali is missing (57 code units).\<close>

definition secretMissingWarning :: jsstring where
  "secretMissingWarning =
     [0x004B, 0x0069, 0x0061, 0x006C, 0x0069, 0x7684, 0x5BC6, 0x7801, 0x4E22, 0x5931,
      0x3002, 0x5728, 0x7BA1, 0x7406, 0x5458, 0x521B, 0x5EFA, 0x6709, 0x6548, 0x7684,
      0x5BC6, 0x7801, 0x4E4B, 0x524D, 0xFF0C, 0x7981, 0x6B62, 0x7528, 0x6237, 0x8BBF,
      0x95EE, 0x004B, 0x0069, 0x0061, 0x006C, 0x0069, 0x3002, 0x76F8, 0x5173, 0x66F4,
      0x591A, 0x8BE6, 0x7EC6, 0x4FE1, 0x606F, 0xFF0C, 0x8BF7, 0x53C2, 0x9605, 0x004B,
      0x0069, 0x0061, 0x006C, 0x0069, 0x6587, 0x6863, 0x3002]"

text \<open>Line 138: the warning that the session has expired (20 code units).\<close>

definition sessionExpiredWarning :: jsstring where
  "sessionExpiredWarning =
     [0x60A8, 0x7684, 0x767B, 0x5F55, 0x72B6, 0x6001, 0x5DF2, 0x8FC7, 0x671F, 0x6216,
      0x5DF2, 0x5728, 0x53E6, 0x4E00, 0x7A97, 0x53E3, 0x4E2D, 0x7EC8, 0x6B62, 0x3002]"

subsection \<open>External configuration and props\<close>

text \<open>
  Modelled from the spec: the enumeration \<open>AuthStrategy\<close> of types/Auth, which the
  page imports; the spec gives it the two variants the page tests for.
\<close>

datatype AuthStrategy = login | openshift

text \<open>
  Modelled from the spec: the enumeration \<open>LoginStatus\<close> of store/Store, which the
  page imports; the spec lists idle, logging, expired and error.
\<close>

datatype LoginStatus = idle | logging | expired | error

text \<open>
  Modelled from the spec: the object \<open>authenticationConfig\<close> of config, with the three
  fields the page reads. \<open>authorizationEndpoint\<close> is optional.
\<close>

record AuthConfig =
  strategy :: AuthStrategy
  authorizationEndpoint :: "jsstring option"
  secretMissing :: bool

text \<open>
  \<open>LoginProps\<close>, lines 12 to 21. The two callbacks are external operations; a call is
  recorded as an effect (below). Line 82 tests \<open>this.props.authenticate\<close> for
  truthiness, so the field \<open>authenticate\<close> says whether the callback is there.
  \<open>checkCredentials\<close> is called unguarded and is taken to be there, as its type says.
  The props \<open>session\<close> and \<open>error\<close> are never read by the page.
\<close>

record LoginProps =
  status :: LoginStatus
  message :: "jsstring option"
  authenticate :: bool
  isPostLoginPerforming :: bool
  postLoginErrorMsg :: "jsstring option"

subsection \<open>The form state\<close>

text \<open>\<open>LoginState\<close>, lines 23 to 31.\<close>

record LoginState =
  username :: jsstring
  password :: jsstring
  isValidUsername :: bool
  isValidPassword :: bool
  filledInputs :: bool
  showHelperText :: bool
  errorInput :: "jsstring option"

text \<open>The constructor, lines 40 to 48.\<close>

definition initialState :: LoginState where
  "initialState =
     \<lparr> username = [], password = [], isValidUsername = True, isValidPassword = True,
       filledInputs = False, showHelperText = False, errorInput = Some [] \<rparr>"

subsection \<open>Effects\<close>

text \<open>
  What a handler does outside the form state, in the order it does it:
  \<open>e.preventDefault()\<close>, the assignment to \<open>window.location.href\<close>, the two callbacks
  of the props, and the focus on the user name input.
\<close>

datatype effect =
    PreventDefault
  | Navigate "jsstring option"
  | Authenticate jsstring jsstring
  | CheckCredentials
  | Focus

fun isAuthenticate :: "effect \<Rightarrow> bool" where
  "isAuthenticate (Authenticate u p) = True"
| "isAuthenticate e = False"

subsection \<open>Handlers\<close>

text \<open>
  \<open>componentDidMount\<close>, lines 51 to 59. \<open>loginInput\<close> says whether
  \<open>document.getElementById\<close> found the user name input.
\<close>

definition componentDidMount :: "bool \<Rightarrow> LoginState \<Rightarrow> LoginState \<times> effect list" where
  "componentDidMount loginInput s =
     (s, [CheckCredentials] @ (if loginInput then [Focus] else []))"

text \<open>Lines 61 to 67.\<close>

definition handleUsernameChange :: "jsstring \<Rightarrow> LoginState \<Rightarrow> LoginState" where
  "handleUsernameChange v s = s\<lparr>username := v\<rparr>"

definition handlePasswordChange :: "jsstring \<Rightarrow> LoginState \<Rightarrow> LoginState" where
  "handlePasswordChange passwordValue s = s\<lparr>password := passwordValue\<rparr>"

text \<open>
  \<open>handleSubmit\<close>, lines 69 to 102. Each \<open>setState\<close> merges the fields it names into
  the state, in the order of the calls. Every read of \<open>this.state\<close> in the handler is
  of \<open>username\<close> or \<open>password\<close>, which no \<open>setState\<close> of the handler names, so the reads
  are of the state \<open>s\<close> the handler started in.
\<close>

definition handleSubmit :: "AuthConfig \<Rightarrow> LoginProps \<Rightarrow> LoginState \<Rightarrow> LoginState \<times> effect list" where
  "handleSubmit cfg p s =
     (if strategy cfg = openshift then
        (s, [PreventDefault, Navigate (authorizationEndpoint cfg)])
      else
        let s1 = s\<lparr> isValidUsername := truthy (username s),
                    isValidPassword := truthy (password s),
                    filledInputs := truthy (username s) \<and> truthy (password s) \<rparr>
        in
          if truthy (username s) \<and> truthy (password s) \<and> authenticate p then
            (s1\<lparr> showHelperText := False, errorInput := Some [] \<rparr>,
             [PreventDefault, Authenticate (username s) (password s)])
          else
            let message' = invalidCredentials;
                message'' = message' @
                  (if \<not> truthy (username s) \<and> \<not> truthy (password s) then bothRequired
                   else if truthy (username s) then passwordRequired
                   else usernameRequired)
            in
              (s1\<lparr> showHelperText := True, errorInput := Some message'',
                    isValidUsername := False, isValidPassword := False \<rparr>,
               [PreventDefault]))"

subsection \<open>Message composition\<close>

text \<open>
  What \<open>getHelperMessage\<close> collects: the \<open>span\<close> that \<open>renderMessage\<close> builds (its key
  is the message, its colour and icon are fixed by the variant), the empty string that
  \<open>renderMessage\<close> returns for a falsy message, or the prop \<open>message\<close> as it is, which
  may be \<open>undefined\<close>.
\<close>

datatype variant = danger | warning

datatype node = Span variant jsstring | Text jsstring | Undefined

text \<open>\<open>renderMessage\<close>, lines 103 to 122; \<open>type\<close> is the optional second argument.\<close>

definition renderMessage ::
  "LoginProps \<Rightarrow> LoginState \<Rightarrow> jsstring option \<Rightarrow> variant option \<Rightarrow> node" where
  "renderMessage p s msg type =
     (case msg of
        None \<Rightarrow> Text []
      | Some m \<Rightarrow>
          if \<not> truthy m then Text []
          else Span (case type of
                       Some t \<Rightarrow> t
                     | None \<Rightarrow> if status p = error \<or> filledInputs s then danger else warning) m)"

text \<open>The prop \<open>message\<close> as line 141 pushes it.\<close>

fun rawMessage :: "jsstring option \<Rightarrow> node" where
  "rawMessage None = Undefined"
| "rawMessage (Some m) = Text m"

text \<open>\<open>getHelperMessage\<close>, lines 124 to 147: five guarded pushes onto one array.\<close>

definition getHelperMessage :: "AuthConfig \<Rightarrow> LoginProps \<Rightarrow> LoginState \<Rightarrow> node list" where
  "getHelperMessage cfg p s =
     (let messages0 = [];
          messages1 = (if showHelperText s
                       then messages0 @ [renderMessage p s (errorInput s) None]
                       else messages0);
          messages2 = (if secretMissing cfg
                       then messages1 @ [renderMessage p s (Some secretMissingWarning) (Some danger)]
                       else messages1);
          messages3 = (if status p = expired
                       then messages2 @ [renderMessage p s (Some sessionExpiredWarning) (Some warning)]
                       else messages2);
          messages4 = (if \<not> secretMissing cfg \<and> status p = error
                       then messages3 @ [rawMessage (message p)]
                       else messages3);
          messages5 = (if truthyOpt (postLoginErrorMsg p)
                       then messages4 @ [renderMessage p s (postLoginErrorMsg p) None]
                       else messages4)
      in messages5)"

text \<open>
  The composition as the specification words it: five candidate messages in a fixed
  order, each with its condition; the result keeps the candidates whose condition holds.
\<close>

definition candidates :: "AuthConfig \<Rightarrow> LoginProps \<Rightarrow> LoginState \<Rightarrow> (bool \<times> node) list" where
  "candidates cfg p s =
     [(showHelperText s, renderMessage p s (errorInput s) None),
      (secretMissing cfg, Span danger secretMissingWarning),
      (status p = expired, Span warning sessionExpiredWarning),
      (status p = error \<and> \<not> secretMissing cfg, rawMessage (message p)),
      (truthyOpt (postLoginErrorMsg p), renderMessage p s (postLoginErrorMsg p) None)]"

definition composed :: "AuthConfig \<Rightarrow> LoginProps \<Rightarrow> LoginState \<Rightarrow> node list" where
  "composed cfg p s = map snd (filter fst (candidates cfg p s))"

text \<open>A collected item that shows some text.\<close>

fun nonEmptyNode :: "node \<Rightarrow> bool" where
  "nonEmptyNode (Span v m) = truthy m"
| "nonEmptyNode (Text m) = truthy m"
| "nonEmptyNode Undefined = False"

definition hasMessageToDisplay :: "AuthConfig \<Rightarrow> LoginProps \<Rightarrow> LoginState \<Rightarrow> bool" where
  "hasMessageToDisplay cfg p s = list_ex nonEmptyNode (getHelperMessage cfg p s)"

text \<open>
  The flag that \<open>render\<close> hands to the form, line 165. The prop \<open>message\<close> is
  compared with the empty string by \<open>!==\<close>, so \<open>undefined\<close> differs from it.
\<close>

definition renderShowHelperText :: "AuthConfig \<Rightarrow> LoginProps \<Rightarrow> LoginState \<Rightarrow> bool" where
  "renderShowHelperText cfg p s =
     (showHelperText s \<or> message p \<noteq> Some [] \<or> length (getHelperMessage cfg p s) > 0)"

subsection \<open>Events\<close>

text \<open>
  The events the page reacts to. \<open>render\<close> (lines 201 to 207) shows the form, and with
  it the two input fields, only when the strategy is \<open>login\<close>; otherwise it shows a
  single button wired to \<open>handleSubmit\<close>. So the two change events can occur only under
  the \<open>login\<close> strategy.
\<close>

datatype event =
    Mount bool
  | UsernameChange jsstring
  | PasswordChange jsstring
  | Submit

fun enabled :: "AuthConfig \<Rightarrow> event \<Rightarrow> bool" where
  "enabled cfg (UsernameChange v) = (strategy cfg = login)"
| "enabled cfg (PasswordChange v) = (strategy cfg = login)"
| "enabled cfg ev = True"

fun step :: "AuthConfig \<Rightarrow> LoginProps \<Rightarrow> event \<Rightarrow> LoginState \<Rightarrow> LoginState \<times> effect list" where
  "step cfg p (Mount loginInput) s = componentDidMount loginInput s"
| "step cfg p (UsernameChange v) s = (handleUsernameChange v s, [])"
| "step cfg p (PasswordChange v) s = (handlePasswordChange v s, [])"
| "step cfg p Submit s = handleSubmit cfg p s"

text \<open>
  A run of the page: the configuration is static, the props are owned outside and may
  differ at every event.
\<close>

fun run :: "AuthConfig \<Rightarrow> (LoginProps \<times> event) list \<Rightarrow> LoginState \<Rightarrow> LoginState" where
  "run cfg [] s = s"
| "run cfg ((p, ev) # evs) s = run cfg evs (fst (step cfg p ev s))"

text \<open>
  The user name and password that the state held at the last submit of a run, if there
  was one; \<open>g\<close> is the value for the submits before the run.
\<close>

fun lastSubmit ::
  "AuthConfig \<Rightarrow> (LoginProps \<times> event) list \<Rightarrow> LoginState \<Rightarrow> (jsstring \<times> jsstring) option
     \<Rightarrow> (jsstring \<times> jsstring) option" where
  "lastSubmit cfg [] s g = g"
| "lastSubmit cfg ((p, ev) # evs) s g =
     lastSubmit cfg evs (fst (step cfg p ev s))
       (if ev = Submit then Some (username s, password s) else g)"

fun bothFilled :: "(jsstring \<times> jsstring) option \<Rightarrow> bool" where
  "bothFilled None = False"
| "bothFilled (Some (u, pw)) = (truthy u \<and> truthy pw)"

section \<open>Properties\<close>

subsection \<open>Helper facts\<close>

lemma truthy_secretMissingWarning: "truthy secretMissingWarning"
  by (simp add: truthy_def secretMissingWarning_def)

lemma truthy_sessionExpiredWarning: "truthy sessionExpiredWarning"
  by (simp add: truthy_def sessionExpiredWarning_def)

lemma renderMessage_typed: "truthy m \<Longrightarrow> renderMessage p s (Some m) (Some t) = Span t m"
  by (simp add: renderMessage_def)

subsection \<open>Message composition\<close>

text \<open>
  Claim C1. The message composition collects, in this order, (1) the local validation
  error when \<open>showHelperText\<close> is set, (2) the missing-secret warning when the
  configuration flags a missing secret, (3) the session-expired warning when the status
  is \<open>expired\<close>, (4) the external status message when the status is \<open>error\<close> and the
  secret is not flagged missing, (5) the post-login error message when one is supplied
  (line 143 tests it for truthiness: a non-empty string). For every state, props and
  configuration the result is exactly the candidates whose conditions hold, in that
  order.
\<close>

theorem getHelperMessage_fixed_order:
  "getHelperMessage cfg p s = composed cfg p s"
  by (simp add: getHelperMessage_def composed_def candidates_def Let_def
      renderMessage_typed truthy_secretMissingWarning truthy_sessionExpiredWarning)

text \<open>
  An instance: validation error shown, secret missing, status \<open>error\<close>, post-login error
  supplied. The status message (4) is left out because the secret is missing.
\<close>

theorem getHelperMessage_fixed_order_witness:
  "getHelperMessage
      \<lparr> strategy = login, authorizationEndpoint = None, secretMissing = True \<rparr>
      \<lparr> status = error, message = Some [0x65], authenticate = True, isPostLoginPerforming = False, postLoginErrorMsg = Some [0x70] \<rparr>
      (initialState\<lparr>showHelperText := True, errorInput := Some [0x76]\<rparr>)
    = [Span danger [0x76], Span danger secretMissingWarning, Span danger [0x70]]"
  using getHelperMessage_fixed_order [where cfg = "\<lparr> strategy = login, authorizationEndpoint = None, secretMissing = True \<rparr>"
      and p = "\<lparr> status = error, message = Some [0x65], authenticate = True, isPostLoginPerforming = False, postLoginErrorMsg = Some [0x70] \<rparr>"
      and s = "initialState\<lparr>showHelperText := True, errorInput := Some [0x76]\<rparr>"]
  by (simp add: composed_def candidates_def renderMessage_def truthy_def initialState_def)

text \<open>
  Claim C7. Whenever the configuration flags the secret as missing, the fixed warning is
  in the composed list, whatever the state and the props.
\<close>

theorem secretMissing_warning_present:
  assumes "secretMissing cfg"
  shows "Span danger secretMissingWarning \<in> set (getHelperMessage cfg p s)"
  using assms
  by (simp add: getHelperMessage_def Let_def renderMessage_typed truthy_secretMissingWarning)

theorem secretMissing_warning_present_witness:
  "secretMissing \<lparr> strategy = login, authorizationEndpoint = None, secretMissing = True \<rparr>
   \<and> Span danger secretMissingWarning \<in> set (getHelperMessage
      \<lparr> strategy = login, authorizationEndpoint = None, secretMissing = True \<rparr>
      \<lparr> status = error, message = Some [0x65], authenticate = True, isPostLoginPerforming = False, postLoginErrorMsg = Some [0x70] \<rparr>
      initialState)"
  using secretMissing_warning_present [where cfg = "\<lparr> strategy = login, authorizationEndpoint = None, secretMissing = True \<rparr>"
      and p = "\<lparr> status = error, message = Some [0x65], authenticate = True, isPostLoginPerforming = False, postLoginErrorMsg = Some [0x70] \<rparr>"
      and s = "initialState"]
  by simp

subsection \<open>Submit\<close>

text \<open>
  Claim C2, as amended. Under the \<open>login\<close> strategy, when user name and password are
  both non-empty and the \<open>authenticate\<close> callback is supplied, a submit calls
  \<open>authenticate\<close> exactly once, with exactly the user name and password of the state,
  and afterwards \<open>showHelperText\<close> is false and \<open>errorInput\<close> is the empty string.
\<close>

theorem handleSubmit_filled_authenticates:
  assumes "strategy cfg = login" and "truthy (username s)" and "truthy (password s)"
    and "authenticate p"
  shows "snd (handleSubmit cfg p s) = [PreventDefault, Authenticate (username s) (password s)]
    \<and> filter isAuthenticate (snd (handleSubmit cfg p s)) = [Authenticate (username s) (password s)]
    \<and> showHelperText (fst (handleSubmit cfg p s)) = False
    \<and> errorInput (fst (handleSubmit cfg p s)) = Some []"
  using assms by (simp add: handleSubmit_def Let_def)

theorem handleSubmit_filled_authenticates_witness:
  "strategy \<lparr> strategy = login, authorizationEndpoint = None, secretMissing = False \<rparr> = login
   \<and> truthy (username (initialState\<lparr>username := [0x61], password := [0x62]\<rparr>)) \<and> truthy (password (initialState\<lparr>username := [0x61], password := [0x62]\<rparr>))
   \<and> authenticate \<lparr> status = idle, message = None, authenticate = True, isPostLoginPerforming = False, postLoginErrorMsg = None \<rparr>
   \<and> snd (handleSubmit
      \<lparr> strategy = login, authorizationEndpoint = None, secretMissing = False \<rparr>
      \<lparr> status = idle, message = None, authenticate = True, isPostLoginPerforming = False, postLoginErrorMsg = None \<rparr>
      (initialState\<lparr>username := [0x61], password := [0x62]\<rparr>)) = [PreventDefault, Authenticate [0x61] [0x62]]
   \<and> showHelperText (fst (handleSubmit
      \<lparr> strategy = login, authorizationEndpoint = None, secretMissing = False \<rparr>
      \<lparr> status = idle, message = None, authenticate = True, isPostLoginPerforming = False, postLoginErrorMsg = None \<rparr>
      (initialState\<lparr>username := [0x61], password := [0x62]\<rparr>))) = False
   \<and> errorInput (fst (handleSubmit
      \<lparr> strategy = login, authorizationEndpoint = None, secretMissing = False \<rparr>
      \<lparr> status = idle, message = None, authenticate = True, isPostLoginPerforming = False, postLoginErrorMsg = None \<rparr>
      (initialState\<lparr>username := [0x61], password := [0x62]\<rparr>))) = Some []"
  using handleSubmit_filled_authenticates [where cfg = "\<lparr> strategy = login, authorizationEndpoint = None, secretMissing = False \<rparr>"
      and p = "\<lparr> status = idle, message = None, authenticate = True, isPostLoginPerforming = False, postLoginErrorMsg = None \<rparr>"
      and s = "(initialState\<lparr>username := [0x61], password := [0x62]\<rparr>)"]
  by (simp add: truthy_def initialState_def)

text \<open>
  Without the proviso on the callback the statement fails: line 82 also tests
  \<open>this.props.authenticate\<close>. With user name "a", password "b" and no callback, the
  submit calls nothing and shows the validation error.
\<close>

theorem handleSubmit_filled_without_authenticate_counterexample:
  "filter isAuthenticate (snd (handleSubmit
      \<lparr> strategy = login, authorizationEndpoint = None, secretMissing = False \<rparr>
      \<lparr> status = idle, message = None, authenticate = False, isPostLoginPerforming = False, postLoginErrorMsg = None \<rparr>
      (initialState\<lparr>username := [0x61], password := [0x62]\<rparr>))) = []
   \<and> showHelperText (fst (handleSubmit
      \<lparr> strategy = login, authorizationEndpoint = None, secretMissing = False \<rparr>
      \<lparr> status = idle, message = None, authenticate = False, isPostLoginPerforming = False, postLoginErrorMsg = None \<rparr>
      (initialState\<lparr>username := [0x61], password := [0x62]\<rparr>))) = True
   \<and> errorInput (fst (handleSubmit
      \<lparr> strategy = login, authorizationEndpoint = None, secretMissing = False \<rparr>
      \<lparr> status = idle, message = None, authenticate = False, isPostLoginPerforming = False, postLoginErrorMsg = None \<rparr>
      (initialState\<lparr>username := [0x61], password := [0x62]\<rparr>))) = Some (invalidCredentials @ passwordRequired)"
  by (simp add: handleSubmit_def Let_def truthy_def initialState_def)

text \<open>
  Claim C3. Under the \<open>login\<close> strategy, when the user name or the password is empty, a
  submit does not call \<open>authenticate\<close>, sets both validity flags to false and
  \<open>showHelperText\<close> to true, and sets \<open>errorInput\<close> to the fixed prefix followed by one
  of three literals: the one for both fields when both are empty, the one for the
  password when only the password is empty, the one for the user name when only the
  user name is empty.
\<close>

theorem handleSubmit_empty_field_rejected:
  assumes "strategy cfg = login" and "username s = [] \<or> password s = []"
  shows "snd (handleSubmit cfg p s) = [PreventDefault]
    \<and> filter isAuthenticate (snd (handleSubmit cfg p s)) = []
    \<and> isValidUsername (fst (handleSubmit cfg p s)) = False
    \<and> isValidPassword (fst (handleSubmit cfg p s)) = False
    \<and> showHelperText (fst (handleSubmit cfg p s)) = True
    \<and> errorInput (fst (handleSubmit cfg p s)) =
        Some (invalidCredentials @
          (if username s = [] \<and> password s = [] then bothRequired
           else if password s = [] then passwordRequired
           else usernameRequired))"
  using assms by (auto simp add: handleSubmit_def Let_def truthy_def)

theorem handleSubmit_empty_field_rejected_witness:
  "strategy \<lparr> strategy = login, authorizationEndpoint = None, secretMissing = False \<rparr> = login
   \<and> (username (initialState\<lparr>username := [0x61]\<rparr>) = [] \<or> password (initialState\<lparr>username := [0x61]\<rparr>) = [])
   \<and> snd (handleSubmit
      \<lparr> strategy = login, authorizationEndpoint = None, secretMissing = False \<rparr>
      \<lparr> status = idle, message = None, authenticate = True, isPostLoginPerforming = False, postLoginErrorMsg = None \<rparr>
      (initialState\<lparr>username := [0x61]\<rparr>)) = [PreventDefault]
   \<and> isValidUsername (fst (handleSubmit
      \<lparr> strategy = login, authorizationEndpoint = None, secretMissing = False \<rparr>
      \<lparr> status = idle, message = None, authenticate = True, isPostLoginPerforming = False, postLoginErrorMsg = None \<rparr>
      (initialState\<lparr>username := [0x61]\<rparr>))) = False
   \<and> isValidPassword (fst (handleSubmit
      \<lparr> strategy = login, authorizationEndpoint = None, secretMissing = False \<rparr>
      \<lparr> status = idle, message = None, authenticate = True, isPostLoginPerforming = False, postLoginErrorMsg = None \<rparr>
      (initialState\<lparr>username := [0x61]\<rparr>))) = False
   \<and> showHelperText (fst (handleSubmit
      \<lparr> strategy = login, authorizationEndpoint = None, secretMissing = False \<rparr>
      \<lparr> status = idle, message = None, authenticate = True, isPostLoginPerforming = False, postLoginErrorMsg = None \<rparr>
      (initialState\<lparr>username := [0x61]\<rparr>))) = True
   \<and> errorInput (fst (handleSubmit
      \<lparr> strategy = login, authorizationEndpoint = None, secretMissing = False \<rparr>
      \<lparr> status = idle, message = None, authenticate = True, isPostLoginPerforming = False, postLoginErrorMsg = None \<rparr>
      (initialState\<lparr>username := [0x61]\<rparr>))) = Some (invalidCredentials @ passwordRequired)"
  using handleSubmit_empty_field_rejected [where cfg = "\<lparr> strategy = login, authorizationEndpoint = None, secretMissing = False \<rparr>"
      and p = "\<lparr> status = idle, message = None, authenticate = True, isPostLoginPerforming = False, postLoginErrorMsg = None \<rparr>"
      and s = "(initialState\<lparr>username := [0x61]\<rparr>)"]
  by (simp add: initialState_def)

text \<open>
  Claim C4. Under the \<open>openshift\<close> strategy a submit leaves every field of the form
  state as it was and never calls \<open>authenticate\<close>: after cancelling the default action
  of the event, as every submit does first (line 70), all it does is navigate to the
  configured authorization endpoint.
\<close>

theorem handleSubmit_openshift_only_navigates:
  assumes "strategy cfg = openshift"
  shows "fst (handleSubmit cfg p s) = s
    \<and> filter isAuthenticate (snd (handleSubmit cfg p s)) = []
    \<and> snd (handleSubmit cfg p s) = [PreventDefault, Navigate (authorizationEndpoint cfg)]"
  using assms by (simp add: handleSubmit_def)

theorem handleSubmit_openshift_only_navigates_witness:
  "strategy \<lparr> strategy = openshift, authorizationEndpoint = Some [0x2F, 0x6F], secretMissing = False \<rparr> = openshift
   \<and> fst (handleSubmit
      \<lparr> strategy = openshift, authorizationEndpoint = Some [0x2F, 0x6F], secretMissing = False \<rparr>
      \<lparr> status = idle, message = None, authenticate = True, isPostLoginPerforming = False, postLoginErrorMsg = None \<rparr>
      (initialState\<lparr>username := [0x61], password := [0x62]\<rparr>)) = (initialState\<lparr>username := [0x61], password := [0x62]\<rparr>)
   \<and> snd (handleSubmit
      \<lparr> strategy = openshift, authorizationEndpoint = Some [0x2F, 0x6F], secretMissing = False \<rparr>
      \<lparr> status = idle, message = None, authenticate = True, isPostLoginPerforming = False, postLoginErrorMsg = None \<rparr>
      (initialState\<lparr>username := [0x61], password := [0x62]\<rparr>)) = [PreventDefault, Navigate (Some [0x2F, 0x6F])]"
  using handleSubmit_openshift_only_navigates [where cfg = "\<lparr> strategy = openshift, authorizationEndpoint = Some [0x2F, 0x6F], secretMissing = False \<rparr>"
      and p = "\<lparr> status = idle, message = None, authenticate = True, isPostLoginPerforming = False, postLoginErrorMsg = None \<rparr>"
      and s = "(initialState\<lparr>username := [0x61], password := [0x62]\<rparr>)"]
  by simp

text \<open>
  Claim C8. Submitting invalid input is idempotent: when the user name or the password
  is empty, a second submit yields the same \<open>errorInput\<close> and the same validity flags
  as the first (indeed the same state); the message is overwritten, not appended to. The
  props may differ between the two submits.
\<close>

theorem handleSubmit_invalid_idempotent:
  assumes "username s = [] \<or> password s = []"
  shows "fst (handleSubmit cfg p' (fst (handleSubmit cfg p s))) = fst (handleSubmit cfg p s)
    \<and> errorInput (fst (handleSubmit cfg p' (fst (handleSubmit cfg p s)))) =
        errorInput (fst (handleSubmit cfg p s))
    \<and> isValidUsername (fst (handleSubmit cfg p' (fst (handleSubmit cfg p s)))) =
        isValidUsername (fst (handleSubmit cfg p s))
    \<and> isValidPassword (fst (handleSubmit cfg p' (fst (handleSubmit cfg p s)))) =
        isValidPassword (fst (handleSubmit cfg p s))"
  using assms by (auto simp add: handleSubmit_def Let_def truthy_def)

theorem handleSubmit_invalid_idempotent_witness:
  "(username (initialState\<lparr>username := [0x61]\<rparr>) = [] \<or> password (initialState\<lparr>username := [0x61]\<rparr>) = [])
   \<and> errorInput (fst (handleSubmit \<lparr> strategy = login, authorizationEndpoint = None, secretMissing = False \<rparr> \<lparr> status = idle, message = None, authenticate = True, isPostLoginPerforming = False, postLoginErrorMsg = None \<rparr> (fst (handleSubmit
      \<lparr> strategy = login, authorizationEndpoint = None, secretMissing = False \<rparr>
      \<lparr> status = idle, message = None, authenticate = True, isPostLoginPerforming = False, postLoginErrorMsg = None \<rparr>
      (initialState\<lparr>username := [0x61]\<rparr>))))) = errorInput (fst (handleSubmit
      \<lparr> strategy = login, authorizationEndpoint = None, secretMissing = False \<rparr>
      \<lparr> status = idle, message = None, authenticate = True, isPostLoginPerforming = False, postLoginErrorMsg = None \<rparr>
      (initialState\<lparr>username := [0x61]\<rparr>)))
   \<and> isValidUsername (fst (handleSubmit \<lparr> strategy = login, authorizationEndpoint = None, secretMissing = False \<rparr> \<lparr> status = idle, message = None, authenticate = True, isPostLoginPerforming = False, postLoginErrorMsg = None \<rparr> (fst (handleSubmit
      \<lparr> strategy = login, authorizationEndpoint = None, secretMissing = False \<rparr>
      \<lparr> status = idle, message = None, authenticate = True, isPostLoginPerforming = False, postLoginErrorMsg = None \<rparr>
      (initialState\<lparr>username := [0x61]\<rparr>))))) = isValidUsername (fst (handleSubmit
      \<lparr> strategy = login, authorizationEndpoint = None, secretMissing = False \<rparr>
      \<lparr> status = idle, message = None, authenticate = True, isPostLoginPerforming = False, postLoginErrorMsg = None \<rparr>
      (initialState\<lparr>username := [0x61]\<rparr>)))
   \<and> isValidPassword (fst (handleSubmit \<lparr> strategy = login, authorizationEndpoint = None, secretMissing = False \<rparr> \<lparr> status = idle, message = None, authenticate = True, isPostLoginPerforming = False, postLoginErrorMsg = None \<rparr> (fst (handleSubmit
      \<lparr> strategy = login, authorizationEndpoint = None, secretMissing = False \<rparr>
      \<lparr> status = idle, message = None, authenticate = True, isPostLoginPerforming = False, postLoginErrorMsg = None \<rparr>
      (initialState\<lparr>username := [0x61]\<rparr>))))) = isValidPassword (fst (handleSubmit
      \<lparr> strategy = login, authorizationEndpoint = None, secretMissing = False \<rparr>
      \<lparr> status = idle, message = None, authenticate = True, isPostLoginPerforming = False, postLoginErrorMsg = None \<rparr>
      (initialState\<lparr>username := [0x61]\<rparr>)))"
  using handleSubmit_invalid_idempotent [where cfg = "\<lparr> strategy = login, authorizationEndpoint = None, secretMissing = False \<rparr>"
      and p = "\<lparr> status = idle, message = None, authenticate = True, isPostLoginPerforming = False, postLoginErrorMsg = None \<rparr>" and p' = "\<lparr> status = idle, message = None, authenticate = True, isPostLoginPerforming = False, postLoginErrorMsg = None \<rparr>"
      and s = "(initialState\<lparr>username := [0x61]\<rparr>)"]
  by (simp add: initialState_def)

text \<open>
  Claim C10. Under the \<open>login\<close> strategy, when the \<open>authenticate\<close> callback is absent, a
  submit with user name and password both non-empty calls nothing and takes the
  validation branch: \<open>showHelperText\<close> becomes true, \<open>errorInput\<close> the invalid-credentials
  prefix followed by the password literal, both validity flags false, although
  \<open>filledInputs\<close> is true.
\<close>

theorem handleSubmit_authenticate_absent:
  assumes "strategy cfg = login" and "truthy (username s)" and "truthy (password s)"
    and "\<not> authenticate p"
  shows "snd (handleSubmit cfg p s) = [PreventDefault]
    \<and> showHelperText (fst (handleSubmit cfg p s)) = True
    \<and> errorInput (fst (handleSubmit cfg p s)) = Some (invalidCredentials @ passwordRequired)
    \<and> isValidUsername (fst (handleSubmit cfg p s)) = False
    \<and> isValidPassword (fst (handleSubmit cfg p s)) = False
    \<and> filledInputs (fst (handleSubmit cfg p s)) = True"
  using assms by (simp add: handleSubmit_def Let_def)

theorem handleSubmit_authenticate_absent_witness:
  "strategy \<lparr> strategy = login, authorizationEndpoint = None, secretMissing = False \<rparr> = login
   \<and> truthy (username (initialState\<lparr>username := [0x61], password := [0x62]\<rparr>)) \<and> truthy (password (initialState\<lparr>username := [0x61], password := [0x62]\<rparr>))
   \<and> \<not> authenticate \<lparr> status = idle, message = None, authenticate = False, isPostLoginPerforming = False, postLoginErrorMsg = None \<rparr>
   \<and> snd (handleSubmit
      \<lparr> strategy = login, authorizationEndpoint = None, secretMissing = False \<rparr>
      \<lparr> status = idle, message = None, authenticate = False, isPostLoginPerforming = False, postLoginErrorMsg = None \<rparr>
      (initialState\<lparr>username := [0x61], password := [0x62]\<rparr>)) = [PreventDefault]
   \<and> showHelperText (fst (handleSubmit
      \<lparr> strategy = login, authorizationEndpoint = None, secretMissing = False \<rparr>
      \<lparr> status = idle, message = None, authenticate = False, isPostLoginPerforming = False, postLoginErrorMsg = None \<rparr>
      (initialState\<lparr>username := [0x61], password := [0x62]\<rparr>))) = True
   \<and> errorInput (fst (handleSubmit
      \<lparr> strategy = login, authorizationEndpoint = None, secretMissing = False \<rparr>
      \<lparr> status = idle, message = None, authenticate = False, isPostLoginPerforming = False, postLoginErrorMsg = None \<rparr>
      (initialState\<lparr>username := [0x61], password := [0x62]\<rparr>))) = Some (invalidCredentials @ passwordRequired)
   \<and> isValidUsername (fst (handleSubmit
      \<lparr> strategy = login, authorizationEndpoint = None, secretMissing = False \<rparr>
      \<lparr> status = idle, message = None, authenticate = False, isPostLoginPerforming = False, postLoginErrorMsg = None \<rparr>
      (initialState\<lparr>username := [0x61], password := [0x62]\<rparr>))) = False
   \<and> isValidPassword (fst (handleSubmit
      \<lparr> strategy = login, authorizationEndpoint = None, secretMissing = False \<rparr>
      \<lparr> status = idle, message = None, authenticate = False, isPostLoginPerforming = False, postLoginErrorMsg = None \<rparr>
      (initialState\<lparr>username := [0x61], password := [0x62]\<rparr>))) = False
   \<and> filledInputs (fst (handleSubmit
      \<lparr> strategy = login, authorizationEndpoint = None, secretMissing = False \<rparr>
      \<lparr> status = idle, message = None, authenticate = False, isPostLoginPerforming = False, postLoginErrorMsg = None \<rparr>
      (initialState\<lparr>username := [0x61], password := [0x62]\<rparr>))) = True"
  using handleSubmit_authenticate_absent [where cfg = "\<lparr> strategy = login, authorizationEndpoint = None, secretMissing = False \<rparr>"
      and p = "\<lparr> status = idle, message = None, authenticate = False, isPostLoginPerforming = False, postLoginErrorMsg = None \<rparr>"
      and s = "(initialState\<lparr>username := [0x61], password := [0x62]\<rparr>)"]
  by (simp add: truthy_def initialState_def)

subsection \<open>Mount\<close>

text \<open>
  Claim C9. Mounting calls \<open>checkCredentials\<close> exactly once, whatever the state, and
  leaves every field of the form state as it was.
\<close>

theorem componentDidMount_checks_once:
  "count_list (snd (componentDidMount loginInput s)) CheckCredentials = 1
   \<and> fst (componentDidMount loginInput s) = s"
  by (simp add: componentDidMount_def)

theorem componentDidMount_checks_once_witness:
  "snd (componentDidMount True (initialState\<lparr>username := [0x61], password := [0x62]\<rparr>)) = [CheckCredentials, Focus]
   \<and> count_list (snd (componentDidMount True (initialState\<lparr>username := [0x61], password := [0x62]\<rparr>))) CheckCredentials = 1
   \<and> fst (componentDidMount True (initialState\<lparr>username := [0x61], password := [0x62]\<rparr>)) = (initialState\<lparr>username := [0x61], password := [0x62]\<rparr>)"
  using componentDidMount_checks_once [where loginInput = True
      and s = "(initialState\<lparr>username := [0x61], password := [0x62]\<rparr>)"]
  by (simp add: componentDidMount_def)

subsection \<open>Invariants of the form state\<close>

lemma step_keeps_helper_inv:
  "showHelperText s = truthyOpt (errorInput s) \<Longrightarrow>
   showHelperText (fst (step cfg p ev s)) = truthyOpt (errorInput (fst (step cfg p ev s)))"
  by (cases ev)
     (simp_all add: componentDidMount_def handleUsernameChange_def handlePasswordChange_def
        handleSubmit_def Let_def truthy_def invalidCredentials_def)

lemma run_keeps_helper_inv:
  "showHelperText s = truthyOpt (errorInput s) \<Longrightarrow>
   showHelperText (run cfg evs s) = truthyOpt (errorInput (run cfg evs s))"
proof (induction evs arbitrary: s)
  case Nil
  then show ?case by simp
next
  case (Cons pe evs)
  obtain p ev where pe: "pe = (p, ev)" by (cases pe)
  from Cons.prems have "showHelperText (fst (step cfg p ev s)) =
      truthyOpt (errorInput (fst (step cfg p ev s)))"
    by (rule step_keeps_helper_inv)
  then show ?case unfolding pe by (simp add: Cons.IH)
qed

text \<open>
  Claim C5, as amended. In every state the page reaches from its initial state, by any
  sequence of events under any props, \<open>showHelperText\<close> is true iff \<open>errorInput\<close> holds
  a non-empty validation message. The messages derived from the status are shown from
  the props, whatever the flag.
\<close>

theorem showHelperText_iff_validation_message:
  "showHelperText (run cfg evs initialState) = truthyOpt (errorInput (run cfg evs initialState))"
  by (rule run_keeps_helper_inv) (simp add: initialState_def truthy_def)

theorem showHelperText_iff_validation_message_witness:
  "showHelperText (run \<lparr> strategy = login, authorizationEndpoint = None, secretMissing = False \<rparr> [(\<lparr> status = idle, message = None, authenticate = True, isPostLoginPerforming = False, postLoginErrorMsg = None \<rparr>, UsernameChange [0x61]), (\<lparr> status = idle, message = None, authenticate = True, isPostLoginPerforming = False, postLoginErrorMsg = None \<rparr>, Submit)] initialState) = True
   \<and> errorInput (run \<lparr> strategy = login, authorizationEndpoint = None, secretMissing = False \<rparr> [(\<lparr> status = idle, message = None, authenticate = True, isPostLoginPerforming = False, postLoginErrorMsg = None \<rparr>, UsernameChange [0x61]), (\<lparr> status = idle, message = None, authenticate = True, isPostLoginPerforming = False, postLoginErrorMsg = None \<rparr>, Submit)] initialState)
       = Some (invalidCredentials @ passwordRequired)"
  using showHelperText_iff_validation_message [where cfg = "\<lparr> strategy = login, authorizationEndpoint = None, secretMissing = False \<rparr>"
      and evs = "[(\<lparr> status = idle, message = None, authenticate = True, isPostLoginPerforming = False, postLoginErrorMsg = None \<rparr>, UsernameChange [0x61]), (\<lparr> status = idle, message = None, authenticate = True, isPostLoginPerforming = False, postLoginErrorMsg = None \<rparr>, Submit)]"]
  by (simp add: handleUsernameChange_def handleSubmit_def Let_def truthy_def initialState_def)

text \<open>
  With the messages derived from the status the equivalence fails: after mounting, with
  the status \<open>expired\<close>, the flag is false and the session-expired warning is there to
  display.
\<close>

theorem showHelperText_expired_counterexample:
  "showHelperText
     (run \<lparr> strategy = login, authorizationEndpoint = None, secretMissing = False \<rparr>
        [(\<lparr> status = expired, message = None, authenticate = True,
            isPostLoginPerforming = False, postLoginErrorMsg = None \<rparr>, Mount True)]
        initialState) = False
   \<and> hasMessageToDisplay
       \<lparr> strategy = login, authorizationEndpoint = None, secretMissing = False \<rparr>
       \<lparr> status = expired, message = None, authenticate = True,
          isPostLoginPerforming = False, postLoginErrorMsg = None \<rparr>
       (run \<lparr> strategy = login, authorizationEndpoint = None, secretMissing = False \<rparr>
        [(\<lparr> status = expired, message = None, authenticate = True,
            isPostLoginPerforming = False, postLoginErrorMsg = None \<rparr>, Mount True)]
        initialState) = True"
  by (simp add: componentDidMount_def initialState_def hasMessageToDisplay_def
      getHelperMessage_def Let_def renderMessage_typed truthy_sessionExpiredWarning)

text \<open>
  The flag that \<open>render\<close> hands to the form is no such equivalence either: with the prop
  \<open>message\<close> undefined it is true although nothing was collected.
\<close>

lemma renderShowHelperText_without_message:
  "renderShowHelperText
      \<lparr> strategy = login, authorizationEndpoint = None, secretMissing = False \<rparr>
      \<lparr> status = idle, message = None, authenticate = True, isPostLoginPerforming = False, postLoginErrorMsg = None \<rparr>
      initialState = True
   \<and> getHelperMessage
      \<lparr> strategy = login, authorizationEndpoint = None, secretMissing = False \<rparr>
      \<lparr> status = idle, message = None, authenticate = True, isPostLoginPerforming = False, postLoginErrorMsg = None \<rparr>
      initialState = []"
  by (simp add: renderShowHelperText_def getHelperMessage_def Let_def initialState_def)

lemma step_filled_inv:
  assumes "enabled cfg ev"
    and "filledInputs s = bothFilled g"
    and "strategy cfg = openshift \<Longrightarrow> username s = [] \<and> password s = [] \<and> \<not> filledInputs s"
  shows "filledInputs (fst (step cfg p ev s)) =
           bothFilled (if ev = Submit then Some (username s, password s) else g)
    \<and> (strategy cfg = openshift \<longrightarrow>
         username (fst (step cfg p ev s)) = [] \<and> password (fst (step cfg p ev s)) = []
         \<and> \<not> filledInputs (fst (step cfg p ev s)))"
  using assms
  by (cases ev)
     (auto simp add: componentDidMount_def handleUsernameChange_def handlePasswordChange_def
        handleSubmit_def Let_def truthy_def)

lemma run_filled_inv:
  assumes "list_all (enabled cfg) (map snd evs)"
    and "filledInputs s = bothFilled g"
    and "strategy cfg = openshift \<Longrightarrow> username s = [] \<and> password s = [] \<and> \<not> filledInputs s"
  shows "filledInputs (run cfg evs s) = bothFilled (lastSubmit cfg evs s g)"
  using assms
proof (induction evs arbitrary: s g)
  case Nil
  then show ?case by simp
next
  case (Cons pe evs)
  obtain p ev where pe: "pe = (p, ev)" by (cases pe)
  from Cons.prems(1) have en: "enabled cfg ev" and rest: "list_all (enabled cfg) (map snd evs)"
    by (simp_all add: pe)
  have st: "filledInputs (fst (step cfg p ev s)) =
           bothFilled (if ev = Submit then Some (username s, password s) else g)
    \<and> (strategy cfg = openshift \<longrightarrow>
         username (fst (step cfg p ev s)) = [] \<and> password (fst (step cfg p ev s)) = []
         \<and> \<not> filledInputs (fst (step cfg p ev s)))"
    by (rule step_filled_inv [OF en Cons.prems(2) Cons.prems(3)])
  have "filledInputs (run cfg evs (fst (step cfg p ev s))) =
      bothFilled (lastSubmit cfg evs (fst (step cfg p ev s))
        (if ev = Submit then Some (username s, password s) else g))"
    using st by (intro Cons.IH [OF rest]) blast+
  then show ?case by (simp add: pe)
qed

text \<open>
  Claim C6. After any sequence of events the page can receive, starting from the state
  at mount, \<open>filledInputs\<close> is true iff user name and password were both non-empty at
  the last submit; it is false when there was no submit yet.
\<close>

theorem filledInputs_last_submit:
  assumes "list_all (enabled cfg) (map snd evs)"
  shows "filledInputs (run cfg evs initialState) =
           bothFilled (lastSubmit cfg evs initialState None)"
  by (rule run_filled_inv [OF assms]) (simp_all add: initialState_def)

theorem filledInputs_last_submit_witness:
  "list_all (enabled \<lparr> strategy = login, authorizationEndpoint = None, secretMissing = False \<rparr>)
      (map snd [(\<lparr> status = idle, message = None, authenticate = True, isPostLoginPerforming = False, postLoginErrorMsg = None \<rparr>, UsernameChange [0x61]), (\<lparr> status = idle, message = None, authenticate = True, isPostLoginPerforming = False, postLoginErrorMsg = None \<rparr>, PasswordChange [0x62]), (\<lparr> status = idle, message = None, authenticate = True, isPostLoginPerforming = False, postLoginErrorMsg = None \<rparr>, Submit)])
   \<and> lastSubmit \<lparr> strategy = login, authorizationEndpoint = None, secretMissing = False \<rparr>
        [(\<lparr> status = idle, message = None, authenticate = True, isPostLoginPerforming = False, postLoginErrorMsg = None \<rparr>, UsernameChange [0x61]), (\<lparr> status = idle, message = None, authenticate = True, isPostLoginPerforming = False, postLoginErrorMsg = None \<rparr>, PasswordChange [0x62]), (\<lparr> status = idle, message = None, authenticate = True, isPostLoginPerforming = False, postLoginErrorMsg = None \<rparr>, Submit)]
        initialState None = Some ([0x61], [0x62])
   \<and> filledInputs (run \<lparr> strategy = login, authorizationEndpoint = None, secretMissing = False \<rparr>
        [(\<lparr> status = idle, message = None, authenticate = True, isPostLoginPerforming = False, postLoginErrorMsg = None \<rparr>, UsernameChange [0x61]), (\<lparr> status = idle, message = None, authenticate = True, isPostLoginPerforming = False, postLoginErrorMsg = None \<rparr>, PasswordChange [0x62]), (\<lparr> status = idle, message = None, authenticate = True, isPostLoginPerforming = False, postLoginErrorMsg = None \<rparr>, Submit)]
        initialState) = True"
  using filledInputs_last_submit [where cfg = "\<lparr> strategy = login, authorizationEndpoint = None, secretMissing = False \<rparr>"
      and evs = "[(\<lparr> status = idle, message = None, authenticate = True, isPostLoginPerforming = False, postLoginErrorMsg = None \<rparr>, UsernameChange [0x61]), (\<lparr> status = idle, message = None, authenticate = True, isPostLoginPerforming = False, postLoginErrorMsg = None \<rparr>, PasswordChange [0x62]), (\<lparr> status = idle, message = None, authenticate = True, isPostLoginPerforming = False, postLoginErrorMsg = None \<rparr>, Submit)]"]
  by (simp add: handleUsernameChange_def handlePasswordChange_def truthy_def initialState_def)

end
